theory Spec2Isabelle
  imports Complex_Main
begin

section \<open>Water-level task generator: the physical model\<close>

text \<open>
  This theory embeds the arithmetic core of \<^verbatim>\<open>src/src/generator.py\<close>
  (\<^verbatim>\<open>TaskGenerator._generate_task_data\<close>, \<^verbatim>\<open>TaskGenerator._generate_video\<close>) and of
  \<^verbatim>\<open>src/core/video_utils.py\<close> (\<^verbatim>\<open>VideoGenerator.create_video_from_frames\<close>).

  Conventions of the embedding.
  \<^item> Python's unbounded \<^verbatim>\<open>int\<close> is \<^typ>\<open>int\<close>.
  \<^item> Python's \<^verbatim>\<open>float\<close> is idealised as \<^typ>\<open>real\<close>: the rounding error of a float
    operation is not modelled. The concrete runs below use fill ratios and draws that
    are exact in binary (quarters and halves), so that they are the same under IEEE
    doubles.
  \<^item> An exception is a value of type \<open>error\<close> on the left of a sum.
  \<^item> The process-wide random source is passed in explicitly: a list of raw natural
    numbers, consumed one per call of \<^verbatim>\<open>random.randint\<close>, and one raw real in \<open>[0, 1)\<close>
    for the single call of \<^verbatim>\<open>random.uniform\<close>. The list is a finite prefix of the
    random stream; running out of it is the outcome \<open>OutOfDraws\<close>, which stands for a
    resampling loop that has not terminated within that prefix.
\<close>

datatype error =
    ValueError string
  | ZeroDivisionError
  | OutOfDraws

text \<open>The fields of \<^verbatim>\<open>TaskConfig\<close> (\<^verbatim>\<open>src/src/config.py\<close>) that the physical model reads.
  The class declares them with defaults only; it has no validator.\<close>

record TaskConfig =
  image_size :: "int \<times> int"
  min_container_width :: int
  max_container_width :: int
  container_height :: int
  min_fill_ratio :: real
  max_fill_ratio :: real

definition default_config :: TaskConfig where
  "default_config =
     \<lparr>image_size = (512, 512),
      min_container_width = 60, max_container_width = 150, container_height = 200,
      min_fill_ratio = 3 / 10, max_fill_ratio = 8 / 10\<rparr>"

text \<open>The dictionary returned by \<^verbatim>\<open>_generate_task_data\<close>; the constant entry
  \<^verbatim>\<open>"type": "default"\<close> is kept as a string field.\<close>

record PhysicalState =
  source_width :: int
  source_height :: int
  source_water_height :: int
  target_width :: int
  target_height :: int
  target_water_height :: int
  water_volume :: int
  type_tag :: string

subsection \<open>The library calls\<close>

text \<open>\<^verbatim>\<open>random.randint(a, b)\<close> is \<^verbatim>\<open>randrange(a, b + 1)\<close>: it raises \<^verbatim>\<open>ValueError\<close> on an
  empty range and otherwise returns \<open>a\<close> plus a number below the width \<open>b - a + 1\<close>. The raw
  draw \<open>r\<close> is reduced modulo the width, so every raw draw gives a value of the range and
  every value of the range arises.\<close>

definition randint :: "int \<Rightarrow> int \<Rightarrow> nat \<Rightarrow> error + int" where
  "randint a b r =
     (if b < a then Inl (ValueError ''empty range for randrange()'')
      else Inr (a + int (r mod nat (b - a + 1))))"

text \<open>\<^verbatim>\<open>random.uniform(a, b)\<close> is \<^verbatim>\<open>a + (b - a) * random()\<close>; it checks nothing about the
  order of \<open>a\<close> and \<open>b\<close>.\<close>

definition uniform :: "real \<Rightarrow> real \<Rightarrow> real \<Rightarrow> real" where
  "uniform a b u = a + (b - a) * u"

text \<open>\<^verbatim>\<open>int(x)\<close> on a float truncates toward zero.\<close>

definition py_int :: "real \<Rightarrow> int" where
  "py_int x = (if 0 \<le> x then \<lfloor>x\<rfloor> else \<lceil>x\<rceil>)"

text \<open>True division \<^verbatim>\<open>a / b\<close> of two integers.\<close>

definition truediv :: "int \<Rightarrow> int \<Rightarrow> error + real" where
  "truediv a b = (if b = 0 then Inl ZeroDivisionError else Inr (real_of_int a / real_of_int b))"

subsection \<open>\<^verbatim>\<open>_generate_task_data\<close>\<close>

text \<open>Lines 63--64: \<^verbatim>\<open>while abs(target_width - source_width) < 20: target_width = randint(...)\<close>.
  Each iteration consumes one raw draw.\<close>

fun resample_target_width :: "TaskConfig \<Rightarrow> int \<Rightarrow> int \<Rightarrow> nat list \<Rightarrow> error + int" where
  "resample_target_width cfg sw tw [] =
     (if \<bar>tw - sw\<bar> < 20 then Inl OutOfDraws else Inr tw)"
| "resample_target_width cfg sw tw (r # rs) =
     (if \<bar>tw - sw\<bar> < 20
      then (case randint (min_container_width cfg) (max_container_width cfg) r of
              Inl e \<Rightarrow> Inl e
            | Inr tw' \<Rightarrow> resample_target_width cfg sw tw' rs)
      else Inr tw)"

text \<open>Lines 69--96: from the two widths and the sampled fill ratio to the returned
  dictionary. \<open>sw\<close> and \<open>tw\<close> are \<^verbatim>\<open>source_width\<close> and \<^verbatim>\<open>target_width\<close>.\<close>

definition settle_water :: "TaskConfig \<Rightarrow> int \<Rightarrow> int \<Rightarrow> real \<Rightarrow> error + PhysicalState" where
  "settle_water cfg sw tw source_fill =
     (let sh = container_height cfg;
          th = container_height cfg;
          swh = py_int (real_of_int sh * source_fill);
          vol = sw * swh
      in case truediv vol tw of
           Inl e \<Rightarrow> Inl e
         | Inr twh \<Rightarrow>
             if twh > real_of_int th
             then (let vol' = tw * th
                   in case truediv vol' sw of
                        Inl e \<Rightarrow> Inl e
                      | Inr q \<Rightarrow>
                          Inr \<lparr>source_width = sw, source_height = sh,
                               source_water_height = py_int q,
                               target_width = tw, target_height = th,
                               target_water_height = th,
                               water_volume = vol', type_tag = ''default''\<rparr>)
             else Inr \<lparr>source_width = sw, source_height = sh,
                       source_water_height = swh,
                       target_width = tw, target_height = th,
                       target_water_height = py_int twh,
                       water_volume = vol, type_tag = ''default''\<rparr>)"

text \<open>The whole function: two \<^verbatim>\<open>randint\<close> draws, the resampling loop, the \<^verbatim>\<open>uniform\<close>
  draw, then the arithmetic.\<close>

definition generate_task_data :: "TaskConfig \<Rightarrow> nat list \<Rightarrow> real \<Rightarrow> error + PhysicalState" where
  "generate_task_data cfg rs u =
     (case rs of
        [] \<Rightarrow> Inl OutOfDraws
      | r1 # rs1 \<Rightarrow>
          (case randint (min_container_width cfg) (max_container_width cfg) r1 of
             Inl e \<Rightarrow> Inl e
           | Inr sw \<Rightarrow>
               (case rs1 of
                  [] \<Rightarrow> Inl OutOfDraws
                | r2 # rs2 \<Rightarrow>
                    (case randint (min_container_width cfg) (max_container_width cfg) r2 of
                       Inl e \<Rightarrow> Inl e
                     | Inr tw0 \<Rightarrow>
                         (case resample_target_width cfg sw tw0 rs2 of
                            Inl e \<Rightarrow> Inl e
                          | Inr tw \<Rightarrow>
                              settle_water cfg sw tw
                                (uniform (min_fill_ratio cfg) (max_fill_ratio cfg) u))))))"



section \<open>The animation\<close>

text \<open>An image is its size together with a description of what was drawn on it. The
  drawing primitives of PIL are not modelled: a rendered scene is represented by the
  arguments the rendering method was called with, and a resized image by the picture it
  was resampled from.\<close>

datatype picture =
    InitialScene PhysicalState
  | FinalScene PhysicalState
  | TransferScene PhysicalState int int real
  | Resized picture "int \<times> int"

record Image =
  img_size :: "int \<times> int"
  picture :: picture

definition render_initial_state :: "TaskConfig \<Rightarrow> PhysicalState \<Rightarrow> Image" where
  "render_initial_state cfg task_data =
     \<lparr>img_size = image_size cfg, picture = InitialScene task_data\<rparr>"

definition render_final_state :: "TaskConfig \<Rightarrow> PhysicalState \<Rightarrow> Image" where
  "render_final_state cfg task_data =
     \<lparr>img_size = image_size cfg, picture = FinalScene task_data\<rparr>"

definition render_transfer_frame ::
    "TaskConfig \<Rightarrow> PhysicalState \<Rightarrow> int \<Rightarrow> int \<Rightarrow> real \<Rightarrow> Image" where
  "render_transfer_frame cfg task_data source_water target_water progress =
     \<lparr>img_size = image_size cfg,
      picture = TransferScene task_data source_water target_water progress\<rparr>"

text \<open>\<^verbatim>\<open>Image.copy()\<close> returns an image equal to the original.\<close>

definition copy :: "Image \<Rightarrow> Image" where
  "copy img = img"

text \<open>\<^verbatim>\<open>Image.resize(size, LANCZOS)\<close>.\<close>

definition resize :: "Image \<Rightarrow> int \<times> int \<Rightarrow> Image" where
  "resize img sz = \<lparr>img_size = sz, picture = Resized (picture img) sz\<rparr>"

subsection \<open>\<^verbatim>\<open>_generate_video\<close>\<close>

text \<open>The two local constants of lines 265--266.\<close>

definition hold_frames :: nat where
  "hold_frames = 5"

definition animation_frames :: nat where
  "animation_frames = 30"

text \<open>Lines 269--270 and 288--289: \<^verbatim>\<open>for _ in range(k): frames.append(img.copy())\<close>.\<close>

fun hold :: "nat \<Rightarrow> Image \<Rightarrow> Image list \<Rightarrow> Image list" where
  "hold 0 img frames = frames"
| "hold (Suc k) img frames = hold k img (frames @ [copy img])"

text \<open>Lines 277--279, for a loop of \<open>n\<close> transition frames at index \<open>i\<close>: the linear
  progress \<^verbatim>\<open>i / (n - 1)\<close>, then the ease-out curve.\<close>

definition eased_progress :: "nat \<Rightarrow> nat \<Rightarrow> error + real" where
  "eased_progress n i =
     (case truediv (int i) (int n - 1) of
        Inl e \<Rightarrow> Inl e
      | Inr progress \<Rightarrow> Inr (1 - (1 - progress) ^ 2))"

text \<open>Lines 281--282.\<close>

definition current_source :: "int \<Rightarrow> real \<Rightarrow> int" where
  "current_source source_water progress = py_int (real_of_int source_water * (1 - progress))"

definition current_target :: "int \<Rightarrow> real \<Rightarrow> int" where
  "current_target target_water progress = py_int (real_of_int target_water * progress)"

text \<open>The body of the loop of lines 276--285: the frame rendered at index \<open>i\<close>.\<close>

definition transfer_step :: "TaskConfig \<Rightarrow> nat \<Rightarrow> PhysicalState \<Rightarrow> nat \<Rightarrow> error + Image" where
  "transfer_step cfg n task_data i =
     (case eased_progress n i of
        Inl e \<Rightarrow> Inl e
      | Inr progress \<Rightarrow>
          Inr (render_transfer_frame cfg task_data
                 (current_source (source_water_height task_data) progress)
                 (current_target (target_water_height task_data) progress)
                 progress))"

text \<open>The loop itself, over the indices still to be visited.\<close>

fun animate ::
    "TaskConfig \<Rightarrow> nat \<Rightarrow> PhysicalState \<Rightarrow> nat list \<Rightarrow> Image list \<Rightarrow> error + Image list" where
  "animate cfg n task_data [] frames = Inr frames"
| "animate cfg n task_data (i # is) frames =
     (case transfer_step cfg n task_data i of
        Inl e \<Rightarrow> Inl e
      | Inr frame \<Rightarrow> animate cfg n task_data is (frames @ [frame]))"

text \<open>Lines 264--289 with the two frame counts as parameters, and the function as the
  source has it, at \<open>hold_frames\<close> and \<open>animation_frames\<close>. The result is the list handed to
  \<^verbatim>\<open>create_video_from_frames\<close>.\<close>

definition video_frames ::
    "TaskConfig \<Rightarrow> nat \<Rightarrow> nat \<Rightarrow> Image \<Rightarrow> Image \<Rightarrow> PhysicalState \<Rightarrow> error + Image list" where
  "video_frames cfg h n first_image final_image task_data =
     (case animate cfg n task_data [0..<n] (hold h first_image []) of
        Inl e \<Rightarrow> Inl e
      | Inr frames \<Rightarrow> Inr (hold (h * 2) final_image frames))"

definition generate_video_frames ::
    "TaskConfig \<Rightarrow> Image \<Rightarrow> Image \<Rightarrow> PhysicalState \<Rightarrow> error + Image list" where
  "generate_video_frames cfg first_image final_image task_data =
     video_frames cfg hold_frames animation_frames first_image final_image task_data"

text \<open>Outside the failing case \<open>n = 1\<close> the eased progress and the frame of index \<open>i\<close>
  are total functions of \<open>n\<close> and \<open>i\<close>; they are named here to state results about the
  loop (see \<open>eased_progress_eq\<close> and \<open>transfer_step_eq\<close> below).\<close>

definition ease_out :: "nat \<Rightarrow> nat \<Rightarrow> real" where
  "ease_out n i = 1 - (1 - real i / (real n - 1)) ^ 2"

definition frame_at :: "TaskConfig \<Rightarrow> nat \<Rightarrow> PhysicalState \<Rightarrow> nat \<Rightarrow> Image" where
  "frame_at cfg n task_data i =
     render_transfer_frame cfg task_data
       (current_source (source_water_height task_data) (ease_out n i))
       (current_target (target_water_height task_data) (ease_out n i))
       (ease_out n i)"

subsection \<open>\<^verbatim>\<open>VideoGenerator.create_video_from_frames\<close>\<close>

text \<open>Lines 53--59: every frame whose size differs from the target size is resized, then
  written. The writer is the list of frames written so far.\<close>

fun write_frames :: "int \<times> int \<Rightarrow> Image list \<Rightarrow> Image list \<Rightarrow> Image list" where
  "write_frames sz [] writer = writer"
| "write_frames sz (frame # frames) writer =
     write_frames sz frames
       (writer @ [if img_size frame \<noteq> sz then resize frame sz else frame])"

text \<open>The method returns the output path; the model returns what the writer received.\<close>

definition create_video_from_frames ::
    "Image list \<Rightarrow> (int \<times> int) option \<Rightarrow> error + Image list" where
  "create_video_from_frames frames size_opt =
     (case frames of
        [] \<Rightarrow> Inl (ValueError ''No frames provided'')
      | frame0 # _ \<Rightarrow>
          (let sz = (case size_opt of None \<Rightarrow> img_size frame0 | Some s \<Rightarrow> s)
           in Inr (write_frames sz frames [])))"

definition generate_video ::
    "TaskConfig \<Rightarrow> Image \<Rightarrow> Image \<Rightarrow> PhysicalState \<Rightarrow> error + Image list" where
  "generate_video cfg first_image final_image task_data =
     (case generate_video_frames cfg first_image final_image task_data of
        Inl e \<Rightarrow> Inl e
      | Inr frames \<Rightarrow> create_video_from_frames frames None)"

section \<open>Sample runs\<close>

text \<open>A configuration with the default widths and height and with fill ratios that are
  exact in binary, and two configurations whose bounds are in the wrong order.\<close>

definition sample_config :: TaskConfig where
  "sample_config =
     \<lparr>image_size = (512, 512),
      min_container_width = 60, max_container_width = 150, container_height = 200,
      min_fill_ratio = 1 / 4, max_fill_ratio = 3 / 4\<rparr>"



text \<open>Two states the generator returns at fill ratio one half: the first example
  scenario of the specification (source width 100, target width 60), where the water
  fits, and a scenario where the target height is clamped (source width 150, sampled
  height 100, target width 60).\<close>

definition state_A :: PhysicalState where
  "state_A =
     \<lparr>source_width = 100, source_height = 200, source_water_height = 100,
      target_width = 60, target_height = 200, target_water_height = 166,
      water_volume = 10000, type_tag = ''default''\<rparr>"


text \<open>Two frames of different sizes.\<close>

definition frame_a :: Image where
  "frame_a = \<lparr>img_size = (512, 512), picture = InitialScene state_A\<rparr>"

definition frame_b :: Image where
  "frame_b = \<lparr>img_size = (256, 256), picture = FinalScene state_A\<rparr>"

section \<open>Properties of the physical model\<close>

subsection \<open>Truncation toward zero\<close>

lemma py_int_of_int: "py_int (real_of_int n) = n"
  by (simp add: py_int_def)



lemma py_int_mono:
  assumes "x \<le> y"
  shows "py_int x \<le> py_int y"
proof (cases "0 \<le> x")
  case True
  with assms have "0 \<le> y" by simp
  with True assms show ?thesis by (simp add: py_int_def floor_mono)
next
  case False
  show ?thesis
  proof (cases "0 \<le> y")
    case True
    have "\<lceil>x\<rceil> \<le> 0" using False by (simp add: ceiling_le_iff)
    moreover have "0 \<le> \<lfloor>y\<rfloor>" using True by simp
    ultimately have "\<lceil>x\<rceil> \<le> \<lfloor>y\<rfloor>" by linarith
    then show ?thesis using False True by (simp add: py_int_def)
  next
    case y: False
    with False assms show ?thesis by (simp add: py_int_def ceiling_mono)
  qed
qed




subsection \<open>The draws\<close>

lemma randint_range:
  assumes "randint a b r = Inr w"
  shows "a \<le> w \<and> w \<le> b"
proof -
  from assms have ab: "a \<le> b" and w: "w = a + int (r mod nat (b - a + 1))"
    by (auto simp: randint_def split: if_splits)
  have "r mod nat (b - a + 1) < nat (b - a + 1)"
    using ab by (intro mod_less_divisor) simp
  then have "int (r mod nat (b - a + 1)) < b - a + 1" using ab by linarith
  with w show ?thesis by simp
qed

lemma resample_separated:
  "resample_target_width cfg sw tw rs = Inr w \<Longrightarrow> 20 \<le> \<bar>w - sw\<bar>"
proof (induction rs arbitrary: tw)
  case Nil
  then show ?case by (simp split: if_splits)
next
  case (Cons r rs)
  then show ?case by (simp split: if_splits sum.splits)
qed

lemma resample_range:
  "resample_target_width cfg sw tw rs = Inr w \<Longrightarrow>
   min_container_width cfg \<le> tw \<Longrightarrow> tw \<le> max_container_width cfg \<Longrightarrow>
   min_container_width cfg \<le> w \<and> w \<le> max_container_width cfg"
proof (induction rs arbitrary: tw)
  case Nil
  then show ?case by (simp split: if_splits)
next
  case (Cons r rs)
  show ?case
  proof (cases "\<bar>tw - sw\<bar> < 20")
    case True
    with Cons.prems(1) obtain tw' where
      d: "randint (min_container_width cfg) (max_container_width cfg) r = Inr tw'"
      and r: "resample_target_width cfg sw tw' rs = Inr w"
      by (auto split: sum.splits)
    from randint_range [OF d] Cons.IH [OF r] show ?thesis by simp
  next
    case False
    with Cons.prems show ?thesis by simp
  qed
qed

subsection \<open>The two branches of the arithmetic\<close>

lemma settle_water_widths:
  "settle_water cfg sw tw f = Inr st \<Longrightarrow> source_width st = sw \<and> target_width st = tw"
  unfolding settle_water_def truediv_def Let_def
  by (auto split: if_splits)



text \<open>A returned state comes from two widths of the configured range, at least 20
  apart, and the arithmetic on them.\<close>

lemma generate_task_data_decompose:
  assumes "generate_task_data cfg rs u = Inr st"
  shows "\<exists>sw tw. settle_water cfg sw tw (uniform (min_fill_ratio cfg) (max_fill_ratio cfg) u) = Inr st
           \<and> min_container_width cfg \<le> sw \<and> sw \<le> max_container_width cfg
           \<and> min_container_width cfg \<le> tw \<and> tw \<le> max_container_width cfg
           \<and> 20 \<le> \<bar>tw - sw\<bar>"
proof -
  from assms obtain r1 r2 rs2 sw tw0 tw where
    s: "randint (min_container_width cfg) (max_container_width cfg) r1 = Inr sw"
    and t0: "randint (min_container_width cfg) (max_container_width cfg) r2 = Inr tw0"
    and t: "resample_target_width cfg sw tw0 rs2 = Inr tw"
    and w: "settle_water cfg sw tw (uniform (min_fill_ratio cfg) (max_fill_ratio cfg) u) = Inr st"
    unfolding generate_task_data_def
    by (auto split: list.splits sum.splits)
  from randint_range [OF s] randint_range [OF t0] resample_range [OF t] resample_separated [OF t] w
  show ?thesis by blast
qed

text \<open>The resampling loop returns as soon as the prefix of the random stream holds a
  draw that is far enough from the source width.\<close>

lemma resample_terminates:
  assumes "min_container_width cfg \<le> max_container_width cfg"
    and "\<exists>r \<in> set rs. \<forall>w. randint (min_container_width cfg) (max_container_width cfg) r = Inr w
           \<longrightarrow> 20 \<le> \<bar>w - sw\<bar>"
  shows "\<exists>w. resample_target_width cfg sw tw rs = Inr w"
  using assms(2)
proof (induction rs arbitrary: tw)
  case Nil
  then show ?case by simp
next
  case (Cons r rs)
  from assms(1) obtain w' where
    d: "randint (min_container_width cfg) (max_container_width cfg) r = Inr w'"
    by (auto simp: randint_def)
  show ?case
  proof (cases "\<bar>tw - sw\<bar> < 20")
    case False
    then show ?thesis by simp
  next
    case True
    show ?thesis
    proof (cases "20 \<le> \<bar>w' - sw\<bar>")
      case far: True
      then have "resample_target_width cfg sw w' rs = Inr w'"
        by (cases rs) simp_all
      with True d show ?thesis by simp
    next
      case near: False
      with d Cons.prems have "\<exists>r \<in> set rs. \<forall>w. randint (min_container_width cfg) (max_container_width cfg) r = Inr w
           \<longrightarrow> 20 \<le> \<bar>w - sw\<bar>" by auto
      from Cons.IH [OF this] obtain w where "resample_target_width cfg sw w' rs = Inr w" by blast
      with True d show ?thesis by simp
    qed
  qed
qed

subsection \<open>The fill ratio\<close>




subsection \<open>The runs\<close>

lemma run_A: "generate_task_data sample_config [40, 45, 0] (1 / 2) = Inr state_A"
  by (simp add: generate_task_data_def sample_config_def randint_def uniform_def
      settle_water_def truediv_def py_int_def state_A_def Let_def)





section \<open>Claims about the physical model\<close>







text \<open>Claim C4 (width separation). Every state returned by \<^verbatim>\<open>_generate_task_data\<close> has
  widths at least 20 apart: whenever the resampling loop has terminated and the function
  has returned, \<open>|source_width - target_width| \<ge> 20\<close>, whatever the draws were.\<close>

theorem width_separation:
  assumes "generate_task_data cfg rs u = Inr st"
  shows "20 \<le> \<bar>source_width st - target_width st\<bar>"
proof -
  from generate_task_data_decompose [OF assms] obtain sw tw where
    w: "settle_water cfg sw tw (uniform (min_fill_ratio cfg) (max_fill_ratio cfg) u) = Inr st"
    and sep: "20 \<le> \<bar>tw - sw\<bar>" by blast
  from settle_water_widths [OF w] sep show ?thesis by (simp add: abs_minus_commute)
qed

theorem width_separation_witness:
  "generate_task_data sample_config [40, 45, 0] (1 / 2) = Inr state_A
   \<and> 20 \<le> \<bar>source_width state_A - target_width state_A\<bar>"
  using width_separation [OF run_A] run_A by simp

section \<open>Properties of the animation\<close>

lemma eased_progress_eq:
  assumes "n \<noteq> 1"
  shows "eased_progress n i = Inr (ease_out n i)"
proof -
  from assms have "int n - 1 \<noteq> 0" by simp
  then show ?thesis by (simp add: eased_progress_def truediv_def ease_out_def)
qed

lemma eased_progress_one: "eased_progress 1 i = Inl ZeroDivisionError"
  by (simp add: eased_progress_def truediv_def)

lemma transfer_step_eq:
  "n \<noteq> 1 \<Longrightarrow> transfer_step cfg n st i = Inr (frame_at cfg n st i)"
  by (simp add: transfer_step_def eased_progress_eq frame_at_def)

lemma linear_progress_unit:
  assumes "2 \<le> n" "i < n"
  shows "0 \<le> real i / (real n - 1) \<and> real i / (real n - 1) \<le> 1"
proof -
  from assms have "0 < real n - 1" by simp
  moreover from assms have "real i \<le> real n - 1" by linarith
  ultimately show ?thesis by simp
qed


lemma ease_out_mono:
  assumes "2 \<le> n" "i \<le> j" "j < n"
  shows "ease_out n i \<le> ease_out n j"
proof -
  let ?p = "real i / (real n - 1)" and ?q = "real j / (real n - 1)"
  from assms have d: "0 < real n - 1" by simp
  from assms(2) d have "?p \<le> ?q" by (simp add: divide_right_mono)
  moreover from linear_progress_unit [OF assms(1,3)] have "0 \<le> 1 - ?q" by simp
  ultimately have "(1 - ?q) ^ 2 \<le> (1 - ?p) ^ 2" by (intro power_mono) simp_all
  then show ?thesis unfolding ease_out_def by linarith
qed

lemma ease_out_first: "ease_out n 0 = 0"
  by (simp add: ease_out_def)

lemma ease_out_last: "2 \<le> n \<Longrightarrow> ease_out n (n - 1) = 1"
proof -
  assume "2 \<le> n"
  then have "real (n - 1) = real n - 1" "real n - 1 \<noteq> 0" by (simp_all add: of_nat_diff)
  then show ?thesis by (simp add: ease_out_def)
qed

lemma py_int_0: "py_int 0 = 0"
  by (simp add: py_int_def)

lemma current_ends:
  "current_source s 0 = s" "current_source s 1 = 0"
  "current_target t 0 = 0" "current_target t 1 = t"
  by (simp_all add: current_source_def current_target_def py_int_of_int py_int_0)

lemma hold_replicate: "hold k img frames = frames @ replicate k img"
proof (induction k arbitrary: frames)
  case 0
  show ?case by simp
next
  case (Suc k)
  show ?case by (simp add: Suc.IH copy_def replicate_app_Cons_same)
qed

lemma animate_map:
  assumes "n \<noteq> 1"
  shows "animate cfg n st idx frames = Inr (frames @ map (frame_at cfg n st) idx)"
proof (induction idx arbitrary: frames)
  case Nil
  show ?case by simp
next
  case (Cons i idx)
  show ?case by (simp add: transfer_step_eq [OF assms] Cons.IH)
qed

lemma animate_one:
  "animate cfg 1 st (i # idx) frames = Inl ZeroDivisionError"
  by (simp add: transfer_step_def eased_progress_one del: One_nat_def)

lemma video_frames_eq:
  assumes "n \<noteq> 1"
  shows "video_frames cfg h n first_image final_image st =
     Inr (replicate h first_image @ map (frame_at cfg n st) [0..<n]
            @ replicate (2 * h) final_image)"
  by (simp add: video_frames_def animate_map [OF assms] hold_replicate mult.commute)

lemma generate_video_frames_eq:
  "generate_video_frames cfg first_image final_image st =
     Inr (replicate hold_frames first_image @ map (frame_at cfg animation_frames st) [0..<animation_frames]
            @ replicate (2 * hold_frames) final_image)"
proof -
  have "animation_frames \<noteq> 1" by (simp add: animation_frames_def)
  from video_frames_eq [OF this] show ?thesis by (simp add: generate_video_frames_def)
qed

subsection \<open>Writing the frames\<close>


section \<open>Failures of the physical model\<close>



section \<open>Claims about the animation\<close>




text \<open>Claim C6 (continuity at the endpoints). For every state and every
  \<open>transition_frames \<ge> 2\<close>, the first transition frame (position \<open>hold_frames\<close> of the
  sequence) is rendered with the state's source water height and target water height 0,
  and the last one (position \<open>hold_frames + transition_frames - 1\<close>) with source water
  height 0 and the state's target water height. The equalities are exact, hence within
  the tolerance of one unit.\<close>

theorem animation_continuity:
  assumes "2 \<le> n"
  shows "\<exists>frames. video_frames cfg h n first_image final_image st = Inr frames
           \<and> frames ! h = render_transfer_frame cfg st (source_water_height st) 0 0
           \<and> frames ! (h + (n - 1)) = render_transfer_frame cfg st 0 (target_water_height st) 1"
proof -
  from assms have n: "n \<noteq> 1" "0 < n" "n - 1 < n" by simp_all
  let ?mid = "map (frame_at cfg n st) [0..<n]"
  let ?frames = "replicate h first_image @ ?mid @ replicate (2 * h) final_image"
  have first: "?frames ! h = frame_at cfg n st 0"
    using n by (simp add: nth_append)
  have last: "?frames ! (h + (n - 1)) = frame_at cfg n st (n - 1)"
    using n by (simp add: nth_append)
  have "frame_at cfg n st 0 = render_transfer_frame cfg st (source_water_height st) 0 0"
    by (simp only: frame_at_def ease_out_first current_ends)
  moreover have "frame_at cfg n st (n - 1)
      = render_transfer_frame cfg st 0 (target_water_height st) 1"
    by (simp only: frame_at_def ease_out_last [OF assms] current_ends)
  ultimately show ?thesis using video_frames_eq [OF n(1)] first last by simp
qed

theorem animation_continuity_witness:
  "(2::nat) \<le> 30
   \<and> (\<exists>frames. video_frames default_config 5 30 frame_a frame_b state_A = Inr frames
        \<and> frames ! 5 = render_transfer_frame default_config state_A 100 0 0
        \<and> frames ! 34 = render_transfer_frame default_config state_A 0 166 1)"
  using animation_continuity [of 30 default_config 5 frame_a frame_b state_A]
  by (simp add: state_A_def)

text \<open>Claim C7 (phase structure). The frame sequence of \<^verbatim>\<open>_generate_video\<close> is
  \<open>hold_frames\<close> copies of the initial image, then \<open>animation_frames\<close> transfer frames (the
  frames of the loop body at the indices \<open>0, ..., animation_frames - 1\<close>, in order), then
  \<open>2 * hold_frames\<close> copies of the final image: \<open>3 * hold_frames + animation_frames\<close> frames
  in all, with \<open>hold_frames = 5\<close> and \<open>animation_frames = 30\<close>.\<close>

theorem phase_structure:
  "\<exists>mid. generate_video_frames cfg first_image final_image st
            = Inr (replicate hold_frames first_image @ mid
                   @ replicate (2 * hold_frames) final_image)
         \<and> length mid = animation_frames
         \<and> (\<forall>i < animation_frames. transfer_step cfg animation_frames st i = Inr (mid ! i))
         \<and> length (replicate hold_frames first_image @ mid
                    @ replicate (2 * hold_frames) final_image)
             = 3 * hold_frames + animation_frames
         \<and> hold_frames = 5 \<and> animation_frames = 30"
proof -
  have n: "animation_frames \<noteq> 1" by (simp add: animation_frames_def)
  let ?mid = "map (frame_at cfg animation_frames st) [0..<animation_frames]"
  have "\<forall>i < animation_frames. transfer_step cfg animation_frames st i = Inr (?mid ! i)"
    by (simp add: transfer_step_eq [OF n])
  moreover have "length ?mid = animation_frames" by simp
  moreover have "length (replicate hold_frames first_image @ ?mid
                    @ replicate (2 * hold_frames) final_image)
             = 3 * hold_frames + animation_frames" by simp
  moreover have "hold_frames = 5 \<and> animation_frames = 30"
    by (simp add: hold_frames_def animation_frames_def)
  ultimately show ?thesis using generate_video_frames_eq by blast
qed

theorem phase_structure_witness:
  "\<exists>mid. generate_video_frames default_config frame_a frame_b state_A
            = Inr (replicate 5 frame_a @ mid @ replicate 10 frame_b)
         \<and> length mid = 30
         \<and> (0::nat) < 30
         \<and> transfer_step default_config 30 state_A 0 = Inr (mid ! 0)"
proof -
  from phase_structure [of default_config frame_a frame_b state_A] obtain mid where
    m: "generate_video_frames default_config frame_a frame_b state_A
          = Inr (replicate hold_frames frame_a @ mid @ replicate (2 * hold_frames) frame_b)"
       "length mid = animation_frames"
       "\<forall>i < animation_frames. transfer_step default_config animation_frames state_A i = Inr (mid ! i)"
       "hold_frames = 5" "animation_frames = 30"
    by blast
  from m(3,5) have "transfer_step default_config 30 state_A 0 = Inr (mid ! 0)" by simp
  with m show ?thesis by auto
qed

text \<open>Claim C10 (monotone water heights). For non-negative water heights and
  \<open>transition_frames \<ge> 2\<close>, along the frame indices \<open>i \<le> j\<close> of the transition the source
  height \<open>int (source_water * (1 - p'))\<close> does not increase and the target height
  \<open>int (target_water * p')\<close> does not decrease.\<close>

theorem monotone_heights:
  assumes "2 \<le> n" "i \<le> j" "j < n"
    and "0 \<le> source_water" "0 \<le> target_water"
  shows "\<exists>p q. eased_progress n i = Inr p \<and> eased_progress n j = Inr q
           \<and> current_source source_water q \<le> current_source source_water p
           \<and> current_target target_water p \<le> current_target target_water q"
proof -
  from assms(1) have n: "n \<noteq> 1" by simp
  from ease_out_mono [OF assms(1,2,3)] have m: "ease_out n i \<le> ease_out n j" .
  have "real_of_int source_water * (1 - ease_out n j)
      \<le> real_of_int source_water * (1 - ease_out n i)"
    using m assms(4) by (intro mult_left_mono) simp_all
  then have s: "current_source source_water (ease_out n j)
      \<le> current_source source_water (ease_out n i)"
    unfolding current_source_def by (rule py_int_mono)
  have "real_of_int target_water * ease_out n i \<le> real_of_int target_water * ease_out n j"
    using m assms(5) by (intro mult_left_mono) simp_all
  then have t: "current_target target_water (ease_out n i)
      \<le> current_target target_water (ease_out n j)"
    unfolding current_target_def by (rule py_int_mono)
  from s t eased_progress_eq [OF n] show ?thesis by simp
qed

theorem monotone_heights_witness:
  "(2::nat) \<le> 30 \<and> (1::nat) \<le> 2 \<and> (2::nat) < 30 \<and> (0::int) \<le> 100 \<and> (0::int) \<le> 166
   \<and> (\<exists>p q. eased_progress 30 1 = Inr p \<and> eased_progress 30 2 = Inr q
           \<and> current_source 100 q \<le> current_source 100 p
           \<and> current_target 166 p \<le> current_target 166 q)"
  using monotone_heights [of 30 1 2 100 166] by simp

section \<open>Claims about error handling\<close>







end
